theory Spec2Isabelle
  imports Main "HOL-Library.Word"
begin

section \<open>Data model of \<^verbatim>\<open>parser.py\<close>\<close>

text \<open>
  The module has two classes, \<^verbatim>\<open>Directory\<close> (scraping of a directory-index page) and
  \<^verbatim>\<open>File\<close> (metadata probe in the constructor, block-cached \<^verbatim>\<open>read\<close>,
  \<^verbatim>\<open>attributes\<close>). Python integers are unbounded and are modelled as \<open>int\<close>;
  \<^verbatim>\<open>//\<close> and \<^verbatim>\<open>%\<close> with a positive divisor are \<open>div\<close> and \<open>mod\<close> on \<open>int\<close>
  (both round towards minus infinity). Text is \<open>string\<close>, the body of a response
  (\<^verbatim>\<open>r.content\<close>) is a list of bytes.
\<close>

type_synonym bytes = "8 word list"

text \<open>An entry of a listing: \<^verbatim>\<open>(name, is_dir)\<close>.\<close>

type_synonym entry = "string \<times> bool"

text \<open>
  Exceptions that leave the functions of the module. Only \<^verbatim>\<open>FuseOSError\<close> is raised
  by a \<^verbatim>\<open>raise\<close> statement; the others are raised by the Python runtime on a
  \<^verbatim>\<open>None\<close> operand, a missing key or an index out of range, and nothing in the module
  catches them (the only handler is \<^verbatim>\<open>except KeyError\<close> around the two header lookups).
\<close>

datatype errno = EIO | ENOENT

datatype exn = TypeError | KeyError | IndexError | AttributeError | ValueError | FuseOSError errno

subsection \<open>The HTTP session\<close>

text \<open>
  A request is its method, its URL and the byte range of its \<^verbatim>\<open>range\<close> header, when it
  has one: \<^verbatim>\<open>{'range': 'bytes=a-b'}\<close> is \<open>Some (a, b)\<close> (the header text is the two
  numbers in decimal, joined by a dash).
\<close>

datatype verb = GET | HEAD

record request =
  meth :: verb
  req_url :: string
  byte_range :: "(int \<times> int) option"

text \<open>
  A response, as the module reads it: \<^verbatim>\<open>status_code\<close>, \<^verbatim>\<open>headers\<close>, \<^verbatim>\<open>text\<close>
  (the body decoded by the HTTP library; the field \<open>text_of\<close>) and \<^verbatim>\<open>content\<close> (the
  raw body). A header that is absent is \<open>None\<close>; looking it up raises \<^verbatim>\<open>KeyError\<close>.
\<close>

record response =
  status_code :: int
  headers :: "string \<rightharpoonup> string"
  text_of :: string
  content :: bytes

subsection \<open>Library functions taken as parameters\<close>

text \<open>
  A page parsed by \<^verbatim>\<open>BeautifulSoup(text, 'html.parser')\<close> is a tree of tags and
  strings. The parser itself is library code: the model starts from the parsed tree.
  A tag has its name, its attributes (a dictionary: one pair for each key) and its
  children; the page itself is a tag above all others.
\<close>

datatype html = Tag string "(string \<times> string) list" "html list" | NavigableString string

text \<open>
  What the module calls and does not define: the HTTP session, the HTML parser,
  \<^verbatim>\<open>int\<close>, the clock and the two date conversions. The type \<open>'t\<close> is the type of
  a point in time (the float that \<^verbatim>\<open>time.time\<close> and \<^verbatim>\<open>time.mktime\<close> return).
  \<^item> \<open>http n q\<close> is the response to the request \<open>q\<close> when \<open>n\<close> requests have been sent
    before it in the session (\<^verbatim>\<open>session.get\<close>, \<^verbatim>\<open>session.head\<close>); any server,
    static or not, is such a function. Transport failures, which the library raises
    and the module does not handle, are outside the model.
  \<^item> \<open>to_int s\<close> is \<^verbatim>\<open>int(s)\<close>, \<open>None\<close> where it raises \<^verbatim>\<open>ValueError\<close>.
  \<^item> \<open>clock\<close> is the value of \<^verbatim>\<open>time.time()\<close> at the one place that reads it.
  \<^item> \<open>http_date s\<close> is
    \<^verbatim>\<open>time.mktime(datetime.strptime(s, "%a, %d %b %Y %H:%M:%S %Z").timetuple())\<close> and
    \<open>listing_date s\<close> the same with the format \<^verbatim>\<open>"%Y-%m-%d %H:%M"\<close>; \<open>None\<close> where
    \<^verbatim>\<open>strptime\<close> raises \<^verbatim>\<open>ValueError\<close>.
\<close>

record 't env =
  http :: "nat \<Rightarrow> request \<Rightarrow> response"
  soup :: "string \<Rightarrow> html"
  to_int :: "string \<Rightarrow> int option"
  clock :: 't
  http_date :: "string \<Rightarrow> 't option"
  listing_date :: "string \<Rightarrow> 't option"

subsection \<open>Navigation in a parsed page\<close>

text \<open>All tags and strings below a node, in document order.\<close>

fun descendants :: "html \<Rightarrow> html list" where
  "descendants (NavigableString s) = []"
| "descendants (Tag n as cs) = concat (map (\<lambda>c. c # descendants c) cs)"

fun is_tag :: "string \<Rightarrow> html \<Rightarrow> bool" where
  "is_tag n (Tag m as cs) = (m = n)"
| "is_tag n (NavigableString s) = False"

text \<open>\<^verbatim>\<open>x.find_all(n)\<close>: the tags named \<open>n\<close> below \<open>x\<close>.\<close>

definition find_all :: "string \<Rightarrow> html \<Rightarrow> html list" where
  "find_all n x = filter (is_tag n) (descendants x)"

text \<open>\<^verbatim>\<open>x.td\<close>, \<^verbatim>\<open>x.img\<close>, \<^verbatim>\<open>x.a\<close>: the first such tag below \<open>x\<close>, or \<^verbatim>\<open>None\<close>.\<close>

definition find_tag :: "string \<Rightarrow> html \<Rightarrow> html option" where
  "find_tag n x = (case find_all n x of [] \<Rightarrow> None | t # ts \<Rightarrow> Some t)"

text \<open>\<^verbatim>\<open>tag[k]\<close>: the value of an attribute, \<^verbatim>\<open>KeyError\<close> when the tag has none.\<close>

fun attr :: "html \<Rightarrow> string \<Rightarrow> exn + string" where
  "attr (Tag n as cs) k = (case map_of as k of None \<Rightarrow> Inl KeyError | Some v \<Rightarrow> Inr v)"
| "attr (NavigableString s) k = Inl TypeError"

text \<open>
  \<^verbatim>\<open>tag.string\<close>: the string of a tag whose only child is a string, or whose only
  child is a tag that has one; \<^verbatim>\<open>None\<close> otherwise.
\<close>

fun string_of :: "html \<Rightarrow> string option" where
  "string_of (NavigableString s) = Some s"
| "string_of (Tag n as [c]) = string_of c"
| "string_of (Tag n as cs) = None"

subsection \<open>String methods\<close>

text \<open>\<^verbatim>\<open>s.strip(chars)\<close> removes the characters of \<open>chars\<close> from both ends of \<open>s\<close>.\<close>

definition strip_chars :: "string \<Rightarrow> string \<Rightarrow> string" where
  "strip_chars chars s =
     rev (dropWhile (\<lambda>c. c \<in> set chars) (rev (dropWhile (\<lambda>c. c \<in> set chars) s)))"

text \<open>
  \<^verbatim>\<open>s.strip()\<close> removes white space from both ends: the characters for which
  \<^verbatim>\<open>str.isspace\<close> holds, here those below 256.
\<close>

definition whitespace :: string where
  "whitespace = [CHR 0x09, CHR 0x0A, CHR 0x0B, CHR 0x0C, CHR 0x0D, CHR 0x1C, CHR 0x1D,
     CHR 0x1E, CHR 0x1F, CHR 0x20, CHR 0x85, CHR 0xA0]"

definition strip :: "string \<Rightarrow> string" where
  "strip s = strip_chars whitespace s"

text \<open>\<^verbatim>\<open>s.split(sep)\<close> for a separator of one character; the result is never empty.\<close>

fun split :: "char \<Rightarrow> string \<Rightarrow> string list" where
  "split sep [] = [[]]"
| "split sep (c # cs) =
     (if c = sep then [] # split sep cs
      else (case split sep cs of w # ws \<Rightarrow> (c # w) # ws | [] \<Rightarrow> [[c]]))"

text \<open>\<^verbatim>\<open>sep.join(ws)\<close>.\<close>

fun join :: "string \<Rightarrow> string list \<Rightarrow> string" where
  "join sep [] = []"
| "join sep [w] = w"
| "join sep (w # ws) = w @ sep @ join sep ws"

text \<open>\<^verbatim>\<open>sub in s\<close> on strings: \<open>sub\<close> occurs in \<open>s\<close> as a contiguous substring.\<close>

fun contains :: "string \<Rightarrow> string \<Rightarrow> bool" where
  "contains [] sub = (sub = [])"
| "contains (c # cs) sub = (take (length sub) (c # cs) = sub \<or> contains cs sub)"

text \<open>
  \<^verbatim>\<open>xs[i:j]\<close>: an index below zero counts from the end, and both indices are
  clamped to the length, so a slice never raises and is shorter than \<open>j - i\<close> where the
  sequence ends early.
\<close>

definition slice_index :: "int \<Rightarrow> int \<Rightarrow> nat" where
  "slice_index n i = nat (if i < 0 then max (i + n) 0 else min i n)"

definition py_slice :: "'a list \<Rightarrow> int \<Rightarrow> int \<Rightarrow> 'a list" where
  "py_slice xs i j =
     (let n = int (length xs); a = slice_index n i; b = slice_index n j
      in take (b - a) (drop a xs))"

section \<open>\<^verbatim>\<open>Directory.contents\<close>\<close>

text \<open>\<^verbatim>\<open>td.img['alt']\<close>: \<^verbatim>\<open>TypeError\<close> when the cell has no image (\<^verbatim>\<open>None['alt']\<close>).\<close>

definition td_img_alt :: "html \<Rightarrow> exn + string" where
  "td_img_alt td =
     (case find_tag ''img'' td of None \<Rightarrow> Inl TypeError | Some img \<Rightarrow> attr img ''alt'')"

text \<open>
  \<^verbatim>\<open>x.find_all('td')[1].a.string\<close>: \<^verbatim>\<open>IndexError\<close> when the row has fewer than two
  cells, \<^verbatim>\<open>AttributeError\<close> when the second has no anchor (\<^verbatim>\<open>None.string\<close>). The
  value may be \<^verbatim>\<open>None\<close>.
\<close>

definition link_string :: "html \<Rightarrow> exn + string option" where
  "link_string x =
     (case find_all ''td'' x of
        td0 # td1 # tds \<Rightarrow>
          (case find_tag ''a'' td1 of None \<Rightarrow> Inl AttributeError | Some a \<Rightarrow> Inr (string_of a))
      | _ \<Rightarrow> Inl IndexError)"

text \<open>
  The body of the loop of \<^verbatim>\<open>contents\<close> for one row \<open>x\<close>: the entry it appends, if
  any. The source evaluates \<^verbatim>\<open>x.td.img['alt']\<close> in the condition and again for
  \<^verbatim>\<open>is_dir\<close>, with the same result. \<^verbatim>\<open>None.strip\<close> is an \<^verbatim>\<open>AttributeError\<close>.
\<close>

definition row_entry :: "html \<Rightarrow> exn + entry option" where
  "row_entry x =
     (case find_tag ''td'' x of
        None \<Rightarrow> Inr None
      | Some td \<Rightarrow>
          (case td_img_alt td of
             Inl e \<Rightarrow> Inl e
           | Inr alt \<Rightarrow>
               if alt \<noteq> ''[PARENTDIR]'' then
                 (case link_string x of
                    Inl e \<Rightarrow> Inl e
                  | Inr None \<Rightarrow> Inl AttributeError
                  | Inr (Some s) \<Rightarrow> Inr (Some (strip_chars ''/'' s, alt = ''[DIR]'')))
               else Inr None))"

fun contents_loop :: "html list \<Rightarrow> entry list \<Rightarrow> exn + entry list" where
  "contents_loop [] acc = Inr acc"
| "contents_loop (x # xs) acc =
     (case row_entry x of
        Inl e \<Rightarrow> Inl e
      | Inr None \<Rightarrow> contents_loop xs acc
      | Inr (Some en) \<Rightarrow> contents_loop xs (acc @ [en]))"

text \<open>
  \<^verbatim>\<open>Directory(root, path, session).contents()\<close>, with the requests sent so far in the
  session: one GET of \<^verbatim>\<open>root/path/\<close>, whose status is not looked at, then the loop
  over the rows of the parsed page.
\<close>

definition listing_request :: "string \<Rightarrow> string \<Rightarrow> request" where
  "listing_request rt pth = \<lparr>meth = GET, req_url = rt @ ''/'' @ pth @ ''/'', byte_range = None\<rparr>"

definition contents ::
  "'t env \<Rightarrow> request list \<Rightarrow> string \<Rightarrow> string \<Rightarrow> (exn + entry list) \<times> request list" where
  "contents E sent rt pth =
     (let response = http E (length sent) (listing_request rt pth);
          parsed = soup E (text_of response)
      in (contents_loop (find_all ''tr'' parsed) [(''.'', True), (''..'', True)],
          sent @ [listing_request rt pth]))"

section \<open>\<^verbatim>\<open>File\<close>\<close>

text \<open>
  The attributes of a \<^verbatim>\<open>File\<close>. \<open>r_probe\<close> is \<^verbatim>\<open>self.r\<close>, the response to the HEAD
  request of the constructor, and \<open>size_attr\<close> is \<^verbatim>\<open>self.size\<close>. \<open>readbuffer\<close> is a
  \<^verbatim>\<open>defaultdict\<close> whose default is \<^verbatim>\<open>None\<close>: a key without a block and a key never
  looked up are the same to the module, and both are \<open>None\<close> here. After a probe whose
  status is not 200 the constructor assigns no \<^verbatim>\<open>mtime\<close>; the field is \<open>None\<close> then.
\<close>

record 't File =
  root :: string
  path :: string
  readbuffer :: "int \<rightharpoonup> bytes"
  dirmtime :: bool
  is_dir :: bool
  url :: string
  r_probe :: response
  size_attr :: int
  mtime :: "'t option"

subsection \<open>The constructor\<close>

text \<open>
  Lines 55 to 56: the listing of the parent directory, from \<^verbatim>\<open>httpfs.readdir_cache\<close>
  when the directory is a key of it, otherwise from \<^verbatim>\<open>Directory.contents\<close>, whose
  result is stored. When \<^verbatim>\<open>contents\<close> raises, nothing is stored.
\<close>

definition load_parent ::
  "'t env \<Rightarrow> (string \<rightharpoonup> entry list) \<Rightarrow> request list \<Rightarrow> string \<Rightarrow> string
     \<Rightarrow> (exn + entry list) \<times> (string \<rightharpoonup> entry list) \<times> request list" where
  "load_parent E readdir_cache sent rt parent_dir =
     (case readdir_cache parent_dir of
        Some listing \<Rightarrow> (Inr listing, readdir_cache, sent)
      | None \<Rightarrow>
          (case contents E sent rt parent_dir of
             (Inl e, sent') \<Rightarrow> (Inl e, readdir_cache, sent')
           | (Inr listing, sent') \<Rightarrow>
               (Inr listing, readdir_cache(parent_dir \<mapsto> listing), sent')))"

text \<open>
  Lines 80 to 83, the body of the fallback loop for one row: the time of the row when
  \<open>filename\<close> occurs in its link text. \<^verbatim>\<open>filename in None\<close> is a \<^verbatim>\<open>TypeError\<close>.
\<close>

definition row_mtime :: "'t env \<Rightarrow> string \<Rightarrow> html \<Rightarrow> exn + 't option" where
  "row_mtime E filename x =
     (case find_tag ''td'' x of
        None \<Rightarrow> Inr None
      | Some td \<Rightarrow>
          (case td_img_alt td of
             Inl e \<Rightarrow> Inl e
           | Inr alt \<Rightarrow>
               if alt \<noteq> ''[PARENTDIR]'' then
                 (case link_string x of
                    Inl e \<Rightarrow> Inl e
                  | Inr None \<Rightarrow> Inl TypeError
                  | Inr (Some s) \<Rightarrow>
                      if contains s filename then
                        (case find_all ''td'' x of
                           td0 # td1 # td2 # tds \<Rightarrow>
                             (case string_of td2 of
                                None \<Rightarrow> Inl AttributeError
                              | Some d \<Rightarrow>
                                  (case listing_date E (strip d) of
                                     None \<Rightarrow> Inl ValueError
                                   | Some t \<Rightarrow> Inr (Some t)))
                         | _ \<Rightarrow> Inl IndexError)
                      else Inr None)
               else Inr None))"

fun mtime_scan :: "'t env \<Rightarrow> string \<Rightarrow> html list \<Rightarrow> 't option \<Rightarrow> exn + 't option" where
  "mtime_scan E filename [] m = Inr m"
| "mtime_scan E filename (x # xs) m =
     (case row_mtime E filename x of
        Inl e \<Rightarrow> Inl e
      | Inr None \<Rightarrow> mtime_scan E filename xs m
      | Inr (Some t) \<Rightarrow> mtime_scan E filename xs (Some t))"

text \<open>
  Lines 64 to 86: size and modification time from the response \<open>r\<close> to the probe.
  \<^verbatim>\<open>except KeyError\<close> catches the missing header only; a \<^verbatim>\<open>ValueError\<close> from
  \<^verbatim>\<open>int\<close> or \<^verbatim>\<open>strptime\<close> leaves the constructor.
\<close>

definition probe_size :: "'t env \<Rightarrow> response \<Rightarrow> exn + int" where
  "probe_size E r =
     (case headers r ''Content-Length'' of
        None \<Rightarrow> Inr 0
      | Some s \<Rightarrow> (case to_int E s of None \<Rightarrow> Inl ValueError | Some n \<Rightarrow> Inr n))"

definition probe_mtime :: "'t env \<Rightarrow> response \<Rightarrow> bool \<Rightarrow> bool \<Rightarrow> exn + 't option" where
  "probe_mtime E r isdir dmt =
     (case headers r ''Last-Modified'' of
        Some mtime_string \<Rightarrow>
          (case http_date E mtime_string of None \<Rightarrow> Inl ValueError | Some t \<Rightarrow> Inr (Some t))
      | None \<Rightarrow> Inr (if isdir \<and> dmt then None else Some (clock E)))"

text \<open>
  Lines 77 to 83: the parent directory's page is requested again and its rows are
  scanned; the last row that matches gives the time.
\<close>

definition listing_mtime ::
  "'t env \<Rightarrow> request list \<Rightarrow> string \<Rightarrow> string \<Rightarrow> string \<Rightarrow> (exn + 't option) \<times> request list" where
  "listing_mtime E sent rt parent_dir filename =
     (let response = http E (length sent) (listing_request rt parent_dir);
          parsed = soup E (text_of response)
      in (mtime_scan E filename (find_all ''tr'' parsed) None,
          sent @ [listing_request rt parent_dir]))"

definition metadata ::
  "'t env \<Rightarrow> request list \<Rightarrow> string \<Rightarrow> string \<Rightarrow> string \<Rightarrow> bool \<Rightarrow> bool \<Rightarrow> response
     \<Rightarrow> (exn + int \<times> 't option) \<times> request list" where
  "metadata E sent rt parent_dir filename isdir dmt r =
     (if status_code r = 200 then
        (case probe_size E r of
           Inl e \<Rightarrow> (Inl e, sent)
         | Inr sz \<Rightarrow>
             (case probe_mtime E r isdir dmt of
                Inl e \<Rightarrow> (Inl e, sent)
              | Inr (Some t) \<Rightarrow> (Inr (sz, Some t), sent)
              | Inr None \<Rightarrow>
                  (case listing_mtime E sent rt parent_dir filename of
                     (Inl e, sent') \<Rightarrow> (Inl e, sent')
                   | (Inr m, sent') \<Rightarrow> (Inr (sz, m), sent'))))
      else (Inr (0, None), sent))"

definition probe_request :: "string \<Rightarrow> request" where
  "probe_request u = \<lparr>meth = HEAD, req_url = u, byte_range = None\<rparr>"

text \<open>
  Lines 53 to 54: \<^verbatim>\<open>"/".join(self.path.split("/")[:-1])\<close> and
  \<^verbatim>\<open>self.path.split("/")[-1]\<close>.
\<close>

definition parent_dir_of :: "string \<Rightarrow> string" where
  "parent_dir_of pth = join ''/'' (butlast (split CHR ''/'' pth))"

definition filename_of :: "string \<Rightarrow> string" where
  "filename_of pth = last (split CHR ''/'' pth)"

text \<open>
  \<^verbatim>\<open>File(root, path, httpfs, session, dirmtime)\<close>: the new object, or the exception
  that leaves the constructor, with \<^verbatim>\<open>httpfs.readdir_cache\<close> and the requests sent as
  they are afterwards.
\<close>

definition File_init ::
  "'t env \<Rightarrow> (string \<rightharpoonup> entry list) \<Rightarrow> request list \<Rightarrow> string \<Rightarrow> string \<Rightarrow> bool
     \<Rightarrow> (exn + 't File) \<times> (string \<rightharpoonup> entry list) \<times> request list" where
  "File_init E readdir_cache sent rt pth dmt =
     (let parent_dir = parent_dir_of pth;
          filename = filename_of pth
      in case load_parent E readdir_cache sent rt parent_dir of
           (Inl e, cache', sent') \<Rightarrow> (Inl e, cache', sent')
         | (Inr listing, cache', sent') \<Rightarrow>
             (let dirs = map fst (filter snd listing);
                  isdir = (filename \<in> set dirs \<or> filename = []);
                  u = rt @ ''/'' @ pth @ (if isdir then ''/'' else []);
                  r = http E (length sent') (probe_request u);
                  sent'' = sent' @ [probe_request u]
              in case metadata E sent'' rt parent_dir filename isdir dmt r of
                   (Inl e, sent''') \<Rightarrow> (Inl e, cache', sent''')
                 | (Inr (sz, mt), sent''') \<Rightarrow>
                     (Inr \<lparr>root = rt, path = pth, readbuffer = Map.empty, dirmtime = dmt,
                            is_dir = isdir, url = u, r_probe = r, size_attr = sz, mtime = mt\<rparr>,
                      cache', sent''')))"

subsection \<open>Block arithmetic of \<^verbatim>\<open>File.read\<close>\<close>

definition mb_start :: "int \<Rightarrow> int" where
  "mb_start offset = (offset div 1024) div 1024"

definition mb_end :: "int \<Rightarrow> int \<Rightarrow> int" where
  "mb_end offset len = ((offset + len) div 1024) div 1024"

definition offset_from_mb :: "int \<Rightarrow> int" where
  "offset_from_mb offset = (((offset div 1024) mod 1024) * 1024) + (offset mod 1024)"

subsection \<open>\<^verbatim>\<open>File.read\<close>\<close>

definition range_request :: "string \<Rightarrow> int \<Rightarrow> int \<Rightarrow> request" where
  "range_request u a b = \<lparr>meth = GET, req_url = u, byte_range = Some (a, b)\<rparr>"

text \<open>
  \<^verbatim>\<open>f.read(length, offset)\<close>: the bytes returned or the exception raised, the file
  object and the requests sent as they are afterwards. The first branch is the read
  within one block (lines 103 to 120), the second the read across blocks (lines 121
  to 133), whose test reads \<^verbatim>\<open>self.r.status_code\<close>, the status of the probe.
\<close>

definition read ::
  "'t env \<Rightarrow> 't File \<Rightarrow> request list \<Rightarrow> int \<Rightarrow> int \<Rightarrow> (exn + bytes) \<times> 't File \<times> request list" where
  "read E f sent len offset =
     (let u = root f @ ''/'' @ path f in
      if mb_start offset = mb_end offset len then
        (case readbuffer f (mb_start offset) of
           None \<Rightarrow>
             (let q = range_request u (mb_start offset * 1024 * 1024)
                        ((mb_start offset * 1024 * 1024) + (1023 * 1024));
                  r = http E (length sent) q
              in if status_code r = 200 \<or> status_code r = 206 then
                   (Inr (py_slice (content r) (offset_from_mb offset) (offset_from_mb offset + len)),
                    f\<lparr>readbuffer := (readbuffer f)(mb_start offset \<mapsto> content r)\<rparr>,
                    sent @ [q])
                 else (Inl (FuseOSError EIO), f, sent @ [q]))
         | Some block \<Rightarrow>
             (Inr (py_slice block (offset_from_mb offset) (offset_from_mb offset + len)), f, sent))
      else
        (let q = range_request u offset (min (size_attr f) (offset + len - 1));
             r = http E (length sent) q
         in if status_code (r_probe f) = 200 \<or> status_code r = 206 then
              (Inr (content r), f, sent @ [q])
            else (Inl (FuseOSError EIO), f, sent @ [q])))"

section \<open>Rows of a listing page\<close>

text \<open>
  The words in which the properties of \<^verbatim>\<open>Directory.contents\<close> are stated. The icon
  of a row is the first image in its first \<^verbatim>\<open>td\<close> cell, as \<^verbatim>\<open>x.td.img\<close> finds it,
  and \<open>icon_alt\<close> is its \<^verbatim>\<open>alt\<close> text, when the row has all three.
\<close>

definition icon_alt :: "html \<Rightarrow> string option" where
  "icon_alt x =
     (case find_tag ''td'' x of
        None \<Rightarrow> None
      | Some td \<Rightarrow> (case td_img_alt td of Inl e \<Rightarrow> None | Inr alt \<Rightarrow> Some alt))"

text \<open>
  The link text of a row is the string of the first anchor in its second \<^verbatim>\<open>td\<close> cell,
  when the row has all of them.
\<close>

definition link_text :: "html \<Rightarrow> string option" where
  "link_text x = (case link_string x of Inl e \<Rightarrow> None | Inr s \<Rightarrow> s)"

text \<open>
  A row is listed when it has an icon whose \<^verbatim>\<open>alt\<close> text is not \<^verbatim>\<open>[PARENTDIR]\<close>; its
  entry is the link text without the separators at either end, flagged as a directory
  when the \<^verbatim>\<open>alt\<close> text is \<^verbatim>\<open>[DIR]\<close>.
\<close>

definition listed :: "html \<Rightarrow> bool" where
  "listed x = (case icon_alt x of None \<Rightarrow> False | Some alt \<Rightarrow> alt \<noteq> ''[PARENTDIR]'')"

definition entry_of :: "html \<Rightarrow> entry" where
  "entry_of x =
     (strip_chars ''/'' (case link_text x of None \<Rightarrow> [] | Some s \<Rightarrow> s), icon_alt x = Some ''[DIR]'')"

text \<open>
  A row the loop passes without an exception: it has no \<^verbatim>\<open>td\<close> cell, or its icon
  says \<^verbatim>\<open>[PARENTDIR]\<close>, or it has an icon with an \<^verbatim>\<open>alt\<close> text and a link text.
\<close>

definition well_formed_row :: "html \<Rightarrow> bool" where
  "well_formed_row x =
     (find_tag ''td'' x = None \<or> icon_alt x = Some ''[PARENTDIR]'' \<or>
      (icon_alt x \<noteq> None \<and> link_text x \<noteq> None))"

text \<open>
  The listing as the specification words it, to compare with \<^verbatim>\<open>contents\<close>: the two
  synthetic entries, then one entry per listed row, whose name is the link text with the
  trailing separators stripped (and nothing else).
\<close>

definition claimed_entry :: "html \<Rightarrow> entry" where
  "claimed_entry x =
     (rev (dropWhile (\<lambda>c. c = CHR ''/'') (rev (case link_text x of None \<Rightarrow> [] | Some s \<Rightarrow> s))),
      icon_alt x = Some ''[DIR]'')"

definition claimed_contents :: "html \<Rightarrow> entry list" where
  "claimed_contents parsed =
     [(''.'', True), (''..'', True)] @ map claimed_entry (filter listed (find_all ''tr'' parsed))"

text \<open>
  The link text of the row does not begin with a separator.
\<close>

definition no_leading_separator :: "html \<Rightarrow> bool" where
  "no_leading_separator x =
     (case link_text x of Some (c # cs) \<Rightarrow> c \<noteq> CHR ''/'' | _ \<Rightarrow> True)"

section \<open>Concrete inputs\<close>

text \<open>
  The inputs at which the functions above are evaluated further down. Times are kept
  symbolic: the clock, or the text a date conversion was applied to.
\<close>

datatype time_value = CallTime | FromHeader string | FromListing string

text \<open>
  A server that holds one file and honours byte ranges: a request with the range
  \<open>a-b\<close> is answered with status 206 and the bytes \<open>a\<close> to \<open>b\<close> of the file, as far as
  the file has them.
\<close>

definition file_server :: "bytes \<Rightarrow> nat \<Rightarrow> request \<Rightarrow> response" where
  "file_server data n q =
     (case byte_range q of
        Some (a, b) \<Rightarrow>
          \<lparr>status_code = 206, headers = Map.empty, text_of = [],
           content = take (nat (b + 1 - a)) (drop (nat a) data)\<rparr>
      | None \<Rightarrow> \<lparr>status_code = 200, headers = Map.empty, text_of = [], content = data\<rparr>)"

text \<open>A server that answers every request with status 500 and a body of three bytes.\<close>

definition failing_server :: "nat \<Rightarrow> request \<Rightarrow> response" where
  "failing_server n q = \<lparr>status_code = 500, headers = Map.empty, text_of = [], content = [1, 2, 3]\<rparr>"

definition env_of :: "(nat \<Rightarrow> request \<Rightarrow> response) \<Rightarrow> (string \<Rightarrow> html) \<Rightarrow> time_value env" where
  "env_of h parser = \<lparr>http = h, soup = parser, to_int = (\<lambda>s. None), clock = CallTime,
     http_date = (\<lambda>s. Some (FromHeader s)), listing_date = (\<lambda>s. Some (FromListing s))\<rparr>"

definition no_page :: "string \<Rightarrow> html" where
  "no_page s = Tag ''[document]'' [] []"

text \<open>
  A \<^verbatim>\<open>File\<close> for \<^verbatim>\<open>http://host/big.bin\<close> as the constructor leaves it after a probe
  with status \<open>st\<close> and a \<^verbatim>\<open>Content-Length\<close> of \<open>sz\<close>: nothing is in the read buffer.
\<close>

definition opened :: "int \<Rightarrow> int \<Rightarrow> time_value File" where
  "opened st sz = \<lparr>root = ''http://host'', path = ''big.bin'', readbuffer = Map.empty,
     dirmtime = False, is_dir = False, url = ''http://host/big.bin'',
     r_probe = \<lparr>status_code = st, headers = Map.empty, text_of = [], content = []\<rparr>,
     size_attr = sz, mtime = Some CallTime\<rparr>"

text \<open>The same file object with three bytes stored as block 0.\<close>

definition cached :: "time_value File" where
  "cached = (opened 200 2097152)\<lparr>readbuffer := [0 \<mapsto> [7, 8, 9]]\<rparr>"

text \<open>A file of 2 MiB (2097152 bytes), all zero, behind a server that honours ranges.\<close>

definition two_mib :: "time_value env" where
  "two_mib = env_of (file_server (replicate 2097152 0)) no_page"

text \<open>
  Pages in the layout of an automatic index: a table whose rows have an icon cell, a
  link cell and a date cell, below a header row of \<^verbatim>\<open>th\<close> cells.
\<close>

definition listing_row :: "string \<Rightarrow> string \<Rightarrow> string \<Rightarrow> html" where
  "listing_row alt name date =
     Tag ''tr'' []
       [Tag ''td'' [(''valign'', ''top'')] [Tag ''img'' [(''src'', ''/icons/x.gif''), (''alt'', alt)] []],
        Tag ''td'' [] [Tag ''a'' [(''href'', name)] [NavigableString name]],
        Tag ''td'' [(''align'', ''right'')] [NavigableString date]]"

definition header_row :: html where
  "header_row =
     Tag ''tr'' []
       [Tag ''th'' [] [Tag ''img'' [(''src'', ''/icons/blank.gif''), (''alt'', ''[ICO]'')] []],
        Tag ''th'' [] [Tag ''a'' [(''href'', ''?C=N;O=D'')] [NavigableString ''Name'']],
        Tag ''th'' [] [Tag ''a'' [(''href'', ''?C=M;O=A'')] [NavigableString ''Last modified'']]]"

definition page :: "html list \<Rightarrow> html" where
  "page rows = Tag ''[document]'' [] [Tag ''html'' [] [Tag ''body'' [] [Tag ''table'' [] rows]]]"

text \<open>
  The index of a directory that holds the directory \<^verbatim>\<open>sub\<close> and the file
  \<^verbatim>\<open>notes.txt\<close>, both modified on 2023-06-01 at 10:00.
\<close>

definition index_page :: html where
  "index_page = page
     [header_row,
      listing_row ''[PARENTDIR]'' ''Parent Directory'' '' '',
      listing_row ''[DIR]'' ''sub/'' ''2023-06-01 10:00  '',
      listing_row ''[TXT]'' ''notes.txt'' ''2023-06-01 10:00  '']"



text \<open>
  A server that gives the same answer to every request, and a parser that gives the
  same page for every text.
\<close>

definition answers :: "response \<Rightarrow> nat \<Rightarrow> request \<Rightarrow> response" where
  "answers r n q = r"

definition parses_to :: "html \<Rightarrow> string \<Rightarrow> html" where
  "parses_to p s = p"

definition ok_response :: response where
  "ok_response = \<lparr>status_code = 200, headers = Map.empty, text_of = ''<html>'', content = []\<rparr>"

text \<open>
  \<^verbatim>\<open>int\<close> on a string of decimal digits.
\<close>

fun digits_value :: "string \<Rightarrow> int \<Rightarrow> int option" where
  "digits_value [] n = Some n"
| "digits_value (c # cs) n =
     (if 48 \<le> (of_char c :: nat) \<and> (of_char c :: nat) \<le> 57
      then digits_value cs (10 * n + int (of_char c) - 48) else None)"

definition decimal :: "string \<Rightarrow> int option" where
  "decimal s = (if s = [] then None else digits_value s 0)"

text \<open>
  The host of the scenario: every GET is answered with the index page, every HEAD
  with status 200, a \<^verbatim>\<open>Content-Length\<close> of 500000 and no \<^verbatim>\<open>Last-Modified\<close> header.
\<close>

definition site :: "response \<Rightarrow> nat \<Rightarrow> request \<Rightarrow> response" where
  "site probe n q = (if meth q = HEAD then probe else ok_response)"

definition probe_response :: response where
  "probe_response = \<lparr>status_code = 200, headers = [''Content-Length'' \<mapsto> ''500000''],
     text_of = [], content = []\<rparr>"

definition host :: "time_value env" where
  "host = (env_of (site probe_response) (parses_to index_page))\<lparr>to_int := decimal\<rparr>"

text \<open>
  The listing of the index page, and the \<^verbatim>\<open>File\<close> object the constructor builds on
  this host for a path, up to the fields that depend on the path.
\<close>

definition root_listing :: "entry list" where
  "root_listing = [(''.'', True), (''..'', True), (''sub'', True), (''notes.txt'', False)]"

definition resolved :: "string \<Rightarrow> bool \<Rightarrow> bool \<Rightarrow> string \<Rightarrow> time_value option \<Rightarrow> time_value File" where
  "resolved pth dmt isdir u mt =
     \<lparr>root = ''http://host'', path = pth, readbuffer = Map.empty, dirmtime = dmt, is_dir = isdir,
      url = u, r_probe = probe_response, size_attr = 500000, mtime = mt\<rparr>"

section \<open>Properties\<close>


subsection \<open>Reads\<close>

lemma read_keeps_blocks:
  "readbuffer f k = Some b \<Longrightarrow> readbuffer (fst (snd (read E f sent len offset))) k = Some b"
  by (auto simp: read_def Let_def split: option.splits)

lemma read_hit:
  "mb_start offset = mb_end offset len \<Longrightarrow> readbuffer f (mb_start offset) = Some b \<Longrightarrow>
   read E f sent len offset =
     (Inr (py_slice b (offset_from_mb offset) (offset_from_mb offset + len)), f, sent)"
  by (simp add: read_def)

lemma read_spanning_keeps_file:
  "mb_start offset \<noteq> mb_end offset len \<Longrightarrow> fst (snd (read E f sent len offset)) = f"
  by (simp add: read_def Let_def)

lemma read_twice:
  assumes "mb_start offset = mb_end offset len" "readbuffer f (mb_start offset) = None"
    "read E f sent len offset = (Inr data, f', sent')"
  shows "(\<exists>q. sent' = sent @ [q]) \<and> read E f' sent' len offset = (Inr data, f', sent')"
  using assms by (auto simp: read_def Let_def split: if_splits)

lemmas read_eval =
  read_def Let_def mb_start_def mb_end_def offset_from_mb_def env_of_def opened_def
  file_server_def failing_server_def range_request_def py_slice_def slice_index_def
  cached_def two_mib_def

text \<open>
  C7. A block that is in the read buffer stays there with the same content through
  every read, within one block or across blocks. A read within one block whose block is
  in the buffer sends no request and returns the slice of the stored block. A read
  across blocks leaves the file object, and so its buffer, as it was. When a read within
  one block finds its block missing and succeeds, it has sent exactly one request, and
  the same read again returns the same bytes and sends nothing.
\<close>

theorem read_buffer_is_authoritative:
  "(readbuffer f k = Some b \<longrightarrow>
      readbuffer (fst (snd (read E f sent len offset))) k = Some b) \<and>
   (mb_start offset = mb_end offset len \<and> readbuffer f (mb_start offset) = Some b \<longrightarrow>
      read E f sent len offset =
        (Inr (py_slice b (offset_from_mb offset) (offset_from_mb offset + len)), f, sent)) \<and>
   (mb_start offset \<noteq> mb_end offset len \<longrightarrow>
      fst (snd (read E f sent len offset)) = f) \<and>
   (mb_start offset = mb_end offset len \<and> readbuffer f (mb_start offset) = None \<and>
    read E f sent len offset = (Inr data, f', sent') \<longrightarrow>
      (\<exists>q. sent' = sent @ [q]) \<and> read E f' sent' len offset = (Inr data, f', sent'))"
proof (intro conjI impI)
  assume "readbuffer f k = Some b"
  then show "readbuffer (fst (snd (read E f sent len offset))) k = Some b"
    by (rule read_keeps_blocks)
next
  assume "mb_start offset = mb_end offset len \<and> readbuffer f (mb_start offset) = Some b"
  then have "mb_start offset = mb_end offset len" and "readbuffer f (mb_start offset) = Some b"
    by blast+
  then show "read E f sent len offset =
      (Inr (py_slice b (offset_from_mb offset) (offset_from_mb offset + len)), f, sent)"
    by (rule read_hit)
next
  assume "mb_start offset \<noteq> mb_end offset len"
  then show "fst (snd (read E f sent len offset)) = f"
    by (rule read_spanning_keeps_file)
next
  assume a: "mb_start offset = mb_end offset len \<and> readbuffer f (mb_start offset) = None \<and>
    read E f sent len offset = (Inr data, f', sent')"
  then have twice: "(\<exists>q. sent' = sent @ [q]) \<and> read E f' sent' len offset = (Inr data, f', sent')"
    by (intro read_twice) blast+
  from twice show "\<exists>q. sent' = sent @ [q]" ..
  from twice show "read E f' sent' len offset = (Inr data, f', sent')" ..
qed

theorem read_buffer_is_authoritative_witness:
  "(readbuffer cached 0 = Some [7, 8, 9] \<and>
      readbuffer (fst (snd (read two_mib cached [] 2 1))) 0 = Some [7, 8, 9]) \<and>
   (mb_start 1 = mb_end 1 2 \<and> readbuffer cached (mb_start 1) = Some [7, 8, 9] \<and>
      read two_mib cached [] 2 1 = (Inr [8, 9], cached, [])) \<and>
   (mb_start 1048570 \<noteq> mb_end 1048570 20 \<and>
      fst (snd (read two_mib cached [] 20 1048570)) = cached) \<and>
   (mb_start 0 = mb_end 0 10 \<and> readbuffer (opened 200 2097152) (mb_start 0) = None \<and>
      read two_mib (opened 200 2097152) [] 10 0 =
        (Inr (replicate 10 0),
         (opened 200 2097152)\<lparr>readbuffer := [0 \<mapsto> replicate 1047553 0]\<rparr>,
         [range_request ''http://host/big.bin'' 0 1047552]) \<and>
      read two_mib ((opened 200 2097152)\<lparr>readbuffer := [0 \<mapsto> replicate 1047553 0]\<rparr>)
          [range_request ''http://host/big.bin'' 0 1047552] 10 0 =
        (Inr (replicate 10 0),
         (opened 200 2097152)\<lparr>readbuffer := [0 \<mapsto> replicate 1047553 0]\<rparr>,
         [range_request ''http://host/big.bin'' 0 1047552]))"
proof -
  have first: "read two_mib (opened 200 2097152) [] 10 0 =
        (Inr (replicate 10 0),
         (opened 200 2097152)\<lparr>readbuffer := [0 \<mapsto> replicate 1047553 0]\<rparr>,
         [range_request ''http://host/big.bin'' 0 1047552])"
    by (simp add: read_eval)
  have b0: "mb_start 0 = mb_end 0 10"
    by (simp add: mb_start_def mb_end_def)
  have b1: "mb_start 1 = mb_end 1 2"
    by (simp add: mb_start_def mb_end_def)
  have b2: "mb_start 1048570 \<noteq> mb_end 1048570 20"
    by (simp add: mb_start_def mb_end_def)
  have s0: "readbuffer cached 0 = Some [7, 8, 9]"
    by (simp add: cached_def opened_def)
  have s1: "readbuffer cached (mb_start 1) = Some [7, 8, 9]"
    by (simp add: cached_def opened_def mb_start_def)
  have s2: "readbuffer (opened 200 2097152) (mb_start 0) = None"
    by (simp add: opened_def)
  have slice: "py_slice [7, 8, 9 :: 8 word] (offset_from_mb 1) (offset_from_mb 1 + 2) = [8, 9]"
    by (simp add: py_slice_def slice_index_def offset_from_mb_def)
  note hit = read_buffer_is_authoritative
    [where f = cached and k = 0 and b = "[7, 8, 9]" and E = two_mib and sent = "[]"
       and len = 2 and offset = 1]
  note spanning = read_buffer_is_authoritative
    [where f = cached and E = two_mib and sent = "[]" and len = 20 and offset = 1048570]
  note twice = read_buffer_is_authoritative
    [where f = "opened 200 2097152" and E = two_mib and sent = "[]" and len = 10 and offset = 0
       and data = "replicate 10 0"
       and f' = "(opened 200 2097152)\<lparr>readbuffer := [0 \<mapsto> replicate 1047553 0]\<rparr>"
       and sent' = "[range_request ''http://host/big.bin'' 0 1047552]"]
  have p1: "readbuffer (fst (snd (read two_mib cached [] 2 1))) 0 = Some [7, 8, 9]"
    using hit s0 by blast
  have p2: "read two_mib cached [] 2 1 = (Inr [8, 9], cached, [])"
    using hit b1 s1 slice by metis
  have p3: "fst (snd (read two_mib cached [] 20 1048570)) = cached"
    using spanning b2 by blast
  have p4: "read two_mib ((opened 200 2097152)\<lparr>readbuffer := [0 \<mapsto> replicate 1047553 0]\<rparr>)
          [range_request ''http://host/big.bin'' 0 1047552] 10 0 =
        (Inr (replicate 10 0),
         (opened 200 2097152)\<lparr>readbuffer := [0 \<mapsto> replicate 1047553 0]\<rparr>,
         [range_request ''http://host/big.bin'' 0 1047552])"
    using twice b0 s2 first by blast
  show ?thesis
    by (intro conjI s0 s1 b0 b1 b2 s2 first p1 p2 p3 p4)
qed

text \<open>
  C1. A read of 100 bytes at offset 1047500 of a file of 2 MiB, with an empty read
  buffer and a server that honours ranges, lies within block 0. The block is requested
  as the bytes 0 to 1047552, so 1047553 bytes are stored, and the slice from 1047500 to
  1047600 of them has 53 bytes. The read returns these 53 bytes and raises nothing; the
  file has all 100 bytes of the range.
\<close>

theorem read_near_end_of_block_is_short:
  "read two_mib (opened 200 2097152) [] 100 1047500 =
     (Inr (replicate 53 0),
      (opened 200 2097152)\<lparr>readbuffer := [0 \<mapsto> replicate 1047553 0]\<rparr>,
      [range_request ''http://host/big.bin'' 0 1047552]) \<and>
   take 100 (drop 1047500 (replicate 2097152 (0 :: 8 word))) = replicate 100 0"
  by (simp add: read_eval)

text \<open>
  C2. A read of 10 bytes at offset 0 with an empty read buffer sends one request, for
  the bytes 0 to 1047552 (that is \<open>0 + 1023 * 1024\<close>, not \<open>0 + 1048576 - 1\<close>), and on
  status 206 stores the body under the key 0.
\<close>

theorem read_requests_block_up_to_1047552:
  "snd (snd (read two_mib (opened 200 2097152) [] 10 0)) =
     [range_request ''http://host/big.bin'' 0 1047552] \<and>
   readbuffer (fst (snd (read two_mib (opened 200 2097152) [] 10 0))) 0 =
     Some (replicate 1047553 0) \<and>
   (1047552 :: int) \<noteq> 0 * 1048576 + 1048576 - 1"
  by (simp add: read_eval)

text \<open>
  C3. A read of 20 bytes at offset 1048570 spans blocks 0 and 1 and sends one request
  for the bytes 1048570 to 1048589. When the probe of the constructor had status 200
  and the server answers the range request with status 500, the read returns the body
  of that answer and raises nothing: the test reads the status of the probe.
\<close>

theorem read_across_blocks_returns_body_of_failed_fetch:
  "read (env_of failing_server no_page) (opened 200 2097152) [] 20 1048570 =
     (Inr [1, 2, 3], opened 200 2097152,
      [range_request ''http://host/big.bin'' 1048570 1048589]) \<and>
   status_code (failing_server 0 (range_request ''http://host/big.bin'' 1048570 1048589)) = 500"
  by (simp add: read_eval)

subsection \<open>Listings\<close>

lemma row_entry_well_formed:
  "well_formed_row x \<Longrightarrow> row_entry x = Inr (if listed x then Some (entry_of x) else None)"
  by (auto simp: well_formed_row_def row_entry_def listed_def entry_of_def icon_alt_def
      link_text_def split: option.splits sum.splits)

lemma contents_loop_well_formed:
  "\<forall>x \<in> set rows. well_formed_row x \<Longrightarrow>
   contents_loop rows acc = Inr (acc @ map entry_of (filter listed rows))"
  by (induction rows arbitrary: acc) (simp_all add: row_entry_well_formed)

lemma entry_of_claimed:
  "no_leading_separator x \<Longrightarrow> entry_of x = claimed_entry x"
  by (auto simp: no_leading_separator_def entry_of_def claimed_entry_def strip_chars_def
      split: option.splits list.splits)






lemmas page_eval =
  contents_def Let_def env_of_def answers_def parses_to_def ok_response_def listing_request_def
  page_def index_page_def listing_row_def header_row_def find_all_def find_tag_def
  row_entry_def td_img_alt_def link_string_def strip_chars_def

lemma rows_index_page:
  "find_all ''tr'' index_page =
     [header_row,
      listing_row ''[PARENTDIR]'' ''Parent Directory'' '' '',
      listing_row ''[DIR]'' ''sub/'' ''2023-06-01 10:00  '',
      listing_row ''[TXT]'' ''notes.txt'' ''2023-06-01 10:00  '']"
  by (simp add: page_eval)

text \<open>
  C8, as stated, fails where a link text begins with a separator: for a page whose only
  row has the icon \<^verbatim>\<open>[DIR]\<close> and the link text \<^verbatim>\<open>/pub/\<close>, \<^verbatim>\<open>contents\<close> returns the
  name \<^verbatim>\<open>pub\<close>, while the link text with its trailing separators stripped is
  \<^verbatim>\<open>/pub\<close>: \<^verbatim>\<open>strip("/")\<close> works on both ends.
\<close>

theorem contents_strips_leading_separator:
  "fst (contents (env_of (answers ok_response)
         (parses_to (page [listing_row ''[DIR]'' ''/pub/'' ''2023-06-01 10:00'']))) []
         ''http://host'' ''srv'') =
     Inr [(''.'', True), (''..'', True), (''pub'', True)] \<and>
   claimed_contents (page [listing_row ''[DIR]'' ''/pub/'' ''2023-06-01 10:00'']) =
     [(''.'', True), (''..'', True), (''/pub'', True)]"
  by (simp add: page_eval claimed_contents_def claimed_entry_def listed_def icon_alt_def link_text_def)

text \<open>
  C8, amended. For a page all of whose rows are well formed, \<^verbatim>\<open>contents\<close> sends one
  GET and returns the entries \<^verbatim>\<open>(".", True)\<close> and \<^verbatim>\<open>("..", True)\<close> followed by one
  entry per row that has a \<^verbatim>\<open>td\<close> cell and whose icon is not \<^verbatim>\<open>[PARENTDIR]\<close>, in the
  order of the rows; the name is the link text with the separators stripped at both
  ends, and the entry is a directory exactly when the icon is \<^verbatim>\<open>[DIR]\<close>. Where the link
  text does not begin with a separator, this is the entry of the specification.
\<close>

theorem contents_of_well_formed_page:
  assumes "list_all well_formed_row
             (find_all ''tr'' (soup E (text_of (http E (length sent) (listing_request rt pth)))))"
  shows "contents E sent rt pth =
           (Inr ([(''.'', True), (''..'', True)] @
                 map entry_of (filter listed
                   (find_all ''tr'' (soup E (text_of (http E (length sent) (listing_request rt pth))))))),
            sent @ [listing_request rt pth]) \<and>
         (no_leading_separator y \<longrightarrow> entry_of y = claimed_entry y)"
  using assms by (simp add: contents_def contents_loop_well_formed entry_of_claimed list_all_iff)

theorem contents_of_well_formed_page_witness:
  "list_all well_formed_row
     (find_all ''tr'' (soup (env_of (answers ok_response) (parses_to index_page))
       (text_of (http (env_of (answers ok_response) (parses_to index_page)) (length [])
          (listing_request ''http://host'' []))))) \<and>
   contents (env_of (answers ok_response) (parses_to index_page)) [] ''http://host'' [] =
     (Inr [(''.'', True), (''..'', True), (''sub'', True), (''notes.txt'', False)],
      [listing_request ''http://host'' []]) \<and>
   no_leading_separator (listing_row ''[DIR]'' ''sub/'' ''2023-06-01 10:00  '') \<and>
   entry_of (listing_row ''[DIR]'' ''sub/'' ''2023-06-01 10:00  '') = (''sub'', True) \<and>
   claimed_entry (listing_row ''[DIR]'' ''sub/'' ''2023-06-01 10:00  '') = (''sub'', True)"
proof -
  let ?E = "env_of (answers ok_response) (parses_to index_page)"
  have parsed: "soup ?E (text_of (http ?E (length []) (listing_request ''http://host'' []))) = index_page"
    by (simp add: env_of_def parses_to_def)
  have wf: "list_all well_formed_row (find_all ''tr'' (soup ?E (text_of (http ?E (length [])
      (listing_request ''http://host'' [])))))"
    unfolding parsed
    by (simp add: rows_index_page) (simp add: well_formed_row_def icon_alt_def link_text_def page_eval)
  have nls: "no_leading_separator (listing_row ''[DIR]'' ''sub/'' ''2023-06-01 10:00  '')"
    by (simp add: no_leading_separator_def link_text_def page_eval)
  have claimed: "claimed_entry (listing_row ''[DIR]'' ''sub/'' ''2023-06-01 10:00  '') = (''sub'', True)"
    by (simp add: claimed_entry_def icon_alt_def link_text_def page_eval)
  note inst = contents_of_well_formed_page
    [OF wf, where y = "listing_row ''[DIR]'' ''sub/'' ''2023-06-01 10:00  ''"]
  from inst nls have same: "entry_of (listing_row ''[DIR]'' ''sub/'' ''2023-06-01 10:00  '') =
      claimed_entry (listing_row ''[DIR]'' ''sub/'' ''2023-06-01 10:00  '')"
    by blast
  have result: "contents ?E [] ''http://host'' [] =
     (Inr [(''.'', True), (''..'', True), (''sub'', True), (''notes.txt'', False)],
      [listing_request ''http://host'' []])"
    by (simp add: page_eval)
  show ?thesis
    using wf result nls same claimed by simp
qed




subsection \<open>The constructor\<close>

lemma load_parent_cached:
  "cache p = Some l \<Longrightarrow> load_parent E cache sent rt p = (Inr l, cache, sent)"
  by (simp add: load_parent_def)

lemma load_parent_keeps:
  "load_parent E cache sent rt p = (res, cache', sent') \<Longrightarrow> cache k = Some l \<Longrightarrow> cache' k = Some l"
  by (auto simp: load_parent_def split: option.splits prod.splits sum.splits)

lemma load_parent_missing:
  "cache p = None \<Longrightarrow>
   load_parent E cache sent rt p =
     (fst (contents E sent rt p),
      (case fst (contents E sent rt p) of Inl e \<Rightarrow> cache | Inr l \<Rightarrow> cache(p \<mapsto> l)),
      sent @ [listing_request rt p])"
  by (auto simp: load_parent_def contents_def Let_def split: sum.splits)

lemma metadata_sent:
  "metadata E sent rt parent name isdir dmt r = (res, sent') \<Longrightarrow>
   sent' = sent \<or> (sent' = sent @ [listing_request rt parent] \<and> isdir \<and> dmt \<and>
      status_code r = 200 \<and> headers r ''Last-Modified'' = None)"
  by (auto simp: metadata_def probe_mtime_def listing_mtime_def Let_def
      split: if_splits sum.splits option.splits prod.splits)

lemma metadata_clock:
  "metadata E sent rt parent name isdir dmt r = (Inr (sz, mt), sent') \<Longrightarrow> status_code r = 200 \<Longrightarrow>
   headers r ''Last-Modified'' = None \<Longrightarrow> \<not> (isdir \<and> dmt) \<Longrightarrow>
   mt = Some (clock E) \<and> probe_size E r = Inr sz \<and> sent' = sent"
  by (auto simp: metadata_def probe_mtime_def split: if_splits sum.splits option.splits prod.splits)



lemma File_init_Inr:
  assumes "File_init E cache sent rt pth dmt = (Inr f, cache', sent')"
  obtains listing sent1 where
    "load_parent E cache sent rt (parent_dir_of pth) = (Inr listing, cache', sent1)"
    "is_dir f = (filename_of pth \<in> set (map fst (filter snd listing)) \<or> filename_of pth = [])"
    "url f = rt @ ''/'' @ pth @ (if is_dir f then ''/'' else [])"
    "r_probe f = http E (length sent1) (probe_request (url f))"
    "metadata E (sent1 @ [probe_request (url f)]) rt (parent_dir_of pth) (filename_of pth)
        (is_dir f) dmt (r_probe f) = (Inr (size_attr f, mtime f), sent')"
  using assms
  by (auto simp: File_init_def Let_def split: prod.splits sum.splits)

lemma File_init_after_load:
  assumes "File_init E cache sent rt pth dmt = (res, cache', sent')"
    and "load_parent E cache sent rt (parent_dir_of pth) = (pr, c1, s1)"
  shows "cache' = c1 \<and>
         ((\<exists>e. pr = Inl e \<and> res = Inl e \<and> sent' = s1) \<or>
          (\<exists>l u. pr = Inr l \<and> (sent' = s1 @ [probe_request u] \<or>
             (dmt \<and> sent' = s1 @ [probe_request u, listing_request rt (parent_dir_of pth)]))))"
proof (cases pr)
  case (Inl e)
  with assms show ?thesis
    by (simp add: File_init_def)
next
  case (Inr l)
  define isdir where "isdir = (filename_of pth \<in> set (map fst (filter snd l)) \<or> filename_of pth = [])"
  define u where "u = rt @ ''/'' @ pth @ (if isdir then ''/'' else [])"
  obtain mres s3 where m: "metadata E (s1 @ [probe_request u]) rt (parent_dir_of pth) (filename_of pth)
      isdir dmt (http E (length s1) (probe_request u)) = (mres, s3)"
    by (cases "metadata E (s1 @ [probe_request u]) rt (parent_dir_of pth) (filename_of pth)
      isdir dmt (http E (length s1) (probe_request u))") blast
  from assms Inr m have "cache' = c1" and "sent' = s3"
    by (auto simp: File_init_def Let_def isdir_def u_def split: sum.splits prod.splits)
  moreover from metadata_sent [OF m]
  have "s3 = s1 @ [probe_request u] \<or>
      (dmt \<and> s3 = s1 @ [probe_request u, listing_request rt (parent_dir_of pth)])"
    by auto
  ultimately show ?thesis
    using Inr by blast
qed

lemmas init_eval =
  File_init_def load_parent_def metadata_def probe_size_def probe_mtime_def listing_mtime_def
  probe_request_def parent_dir_of_def filename_of_def host_def site_def probe_response_def
  decimal_def row_mtime_def strip_def whitespace_def

lemma init_notes:
  "File_init host Map.empty [] ''http://host'' ''notes.txt'' dmt =
     (Inr \<lparr>root = ''http://host'', path = ''notes.txt'', readbuffer = Map.empty, dirmtime = dmt,
            is_dir = False, url = ''http://host/notes.txt'', r_probe = probe_response,
            size_attr = 500000, mtime = Some CallTime\<rparr>,
      [[] \<mapsto> [(''.'', True), (''..'', True), (''sub'', True), (''notes.txt'', False)]],
      [listing_request ''http://host'' [], probe_request ''http://host/notes.txt''])"
  by (simp add: init_eval page_eval)

lemma init_sub:
  "File_init host Map.empty [] ''http://host'' ''sub'' True =
     (Inr \<lparr>root = ''http://host'', path = ''sub'', readbuffer = Map.empty, dirmtime = True,
            is_dir = True, url = ''http://host/sub/'', r_probe = probe_response,
            size_attr = 500000, mtime = Some (FromListing ''2023-06-01 10:00'')\<rparr>,
      [[] \<mapsto> [(''.'', True), (''..'', True), (''sub'', True), (''notes.txt'', False)]],
      [listing_request ''http://host'' [], probe_request ''http://host/sub/'',
       listing_request ''http://host'' []])"
  by (simp add: init_eval page_eval)

lemma init_sub_again:
  "File_init host [[] \<mapsto> [(''.'', True), (''..'', True), (''sub'', True), (''notes.txt'', False)]]
      [listing_request ''http://host'' [], probe_request ''http://host/sub/'',
       listing_request ''http://host'' []] ''http://host'' ''sub'' True =
     (Inr \<lparr>root = ''http://host'', path = ''sub'', readbuffer = Map.empty, dirmtime = True,
            is_dir = True, url = ''http://host/sub/'', r_probe = probe_response,
            size_attr = 500000, mtime = Some (FromListing ''2023-06-01 10:00'')\<rparr>,
      [[] \<mapsto> [(''.'', True), (''..'', True), (''sub'', True), (''notes.txt'', False)]],
      [listing_request ''http://host'' [], probe_request ''http://host/sub/'',
       listing_request ''http://host'' [], probe_request ''http://host/sub/'',
       listing_request ''http://host'' []])"
  by (simp add: init_eval page_eval)


lemma init_notes':
  "File_init host Map.empty [] ''http://host'' ''notes.txt'' dmt =
     (Inr (resolved ''notes.txt'' dmt False ''http://host/notes.txt'' (Some CallTime)),
      [[] \<mapsto> root_listing],
      [listing_request ''http://host'' [], probe_request ''http://host/notes.txt''])"
  by (simp add: init_notes resolved_def root_listing_def)

lemma init_sub':
  "File_init host Map.empty [] ''http://host'' ''sub'' True =
     (Inr (resolved ''sub'' True True ''http://host/sub/'' (Some (FromListing ''2023-06-01 10:00''))),
      [[] \<mapsto> root_listing],
      [listing_request ''http://host'' [], probe_request ''http://host/sub/'',
       listing_request ''http://host'' []])"
  by (simp add: init_sub resolved_def root_listing_def)

lemma init_sub_again':
  "File_init host [[] \<mapsto> root_listing]
      [listing_request ''http://host'' [], probe_request ''http://host/sub/'',
       listing_request ''http://host'' []] ''http://host'' ''sub'' True =
     (Inr (resolved ''sub'' True True ''http://host/sub/'' (Some (FromListing ''2023-06-01 10:00''))),
      [[] \<mapsto> root_listing],
      [listing_request ''http://host'' [], probe_request ''http://host/sub/'',
       listing_request ''http://host'' [], probe_request ''http://host/sub/'',
       listing_request ''http://host'' []])"
  by (simp add: init_sub_again resolved_def root_listing_def)


lemma resolved_probe:
  "status_code (r_probe (resolved pth dmt isdir u mt)) = 200"
  "headers (r_probe (resolved pth dmt isdir u mt)) ''Last-Modified'' = None"
  "is_dir (resolved pth dmt isdir u mt) = isdir"
  "mtime (resolved pth dmt isdir u mt) = mt"
  "size_attr (resolved pth dmt isdir u mt) = 500000"
  "url (resolved pth dmt isdir u mt) = u"
  by (simp_all add: resolved_def probe_response_def)

text \<open>
  C4, as stated, fails. On the host of the scenario the constructor for \<^verbatim>\<open>notes.txt\<close>
  (a file; the probe has status 200, a \<^verbatim>\<open>Content-Length\<close> of 500000 and no
  \<^verbatim>\<open>Last-Modified\<close>) sets \<^verbatim>\<open>mtime\<close> to the clock and \<^verbatim>\<open>size\<close> to 500000, and sends
  the listing request and the probe and nothing after them. The time of the listing row,
  2023-06-01 10:00, is not read.
\<close>

theorem file_mtime_is_clock_not_listing_time:
  "map_sum id mtime (fst (File_init host Map.empty [] ''http://host'' ''notes.txt'' False)) =
     Inr (Some CallTime) \<and>
   map_sum id size_attr (fst (File_init host Map.empty [] ''http://host'' ''notes.txt'' False)) =
     Inr 500000 \<and>
   snd (snd (File_init host Map.empty [] ''http://host'' ''notes.txt'' False)) =
     [listing_request ''http://host'' [], probe_request ''http://host/notes.txt''] \<and>
   listing_date host ''2023-06-01 10:00'' = Some (FromListing ''2023-06-01 10:00'') \<and>
   CallTime \<noteq> FromListing ''2023-06-01 10:00''"
  by (simp add: init_notes' resolved_probe) (simp add: host_def env_of_def)

text \<open>
  C4, amended. For a path that is not a directory, when the probe has status 200 and no
  \<^verbatim>\<open>Last-Modified\<close> header, the constructor sets \<^verbatim>\<open>mtime\<close> to the current time and
  \<^verbatim>\<open>size\<close> to the \<^verbatim>\<open>Content-Length\<close> (0 without one), and the probe is the last
  request it sends: the page of the parent directory is not requested again.
\<close>

theorem file_without_last_modified_gets_clock:
  assumes "File_init E cache sent rt pth dmt = (Inr f, cache', sent')"
    and "\<not> is_dir f" and "status_code (r_probe f) = 200"
    and "headers (r_probe f) ''Last-Modified'' = None"
  shows "mtime f = Some (clock E) \<and> probe_size E (r_probe f) = Inr (size_attr f) \<and>
         sent' = snd (snd (load_parent E cache sent rt (parent_dir_of pth))) @ [probe_request (url f)]"
proof -
  from assms(1) obtain listing sent1 where
    l: "load_parent E cache sent rt (parent_dir_of pth) = (Inr listing, cache', sent1)" and
    m: "metadata E (sent1 @ [probe_request (url f)]) rt (parent_dir_of pth) (filename_of pth)
        (is_dir f) dmt (r_probe f) = (Inr (size_attr f, mtime f), sent')"
    by (rule File_init_Inr)
  from metadata_clock [OF m assms(3,4)] assms(2)
  have "mtime f = Some (clock E) \<and> probe_size E (r_probe f) = Inr (size_attr f) \<and>
      sent' = sent1 @ [probe_request (url f)]"
    by simp
  with l show ?thesis by simp
qed

theorem file_without_last_modified_gets_clock_witness:
  "File_init host Map.empty [] ''http://host'' ''notes.txt'' False =
     (Inr (resolved ''notes.txt'' False False ''http://host/notes.txt'' (Some CallTime)),
      [[] \<mapsto> root_listing],
      [listing_request ''http://host'' [], probe_request ''http://host/notes.txt'']) \<and>
   \<not> is_dir (resolved ''notes.txt'' False False ''http://host/notes.txt'' (Some CallTime)) \<and>
   status_code (r_probe (resolved ''notes.txt'' False False ''http://host/notes.txt'' (Some CallTime))) = 200 \<and>
   headers (r_probe (resolved ''notes.txt'' False False ''http://host/notes.txt'' (Some CallTime)))
     ''Last-Modified'' = None \<and>
   mtime (resolved ''notes.txt'' False False ''http://host/notes.txt'' (Some CallTime)) =
     Some (clock host) \<and>
   probe_size host (r_probe (resolved ''notes.txt'' False False ''http://host/notes.txt'' (Some CallTime))) =
     Inr 500000"
proof -
  let ?f = "resolved ''notes.txt'' False False ''http://host/notes.txt'' (Some CallTime)"
  have h2: "\<not> is_dir ?f" and h3: "status_code (r_probe ?f) = 200"
    and h4: "headers (r_probe ?f) ''Last-Modified'' = None"
    by (simp_all add: resolved_probe)
  note inst = file_without_last_modified_gets_clock [OF init_notes' h2 h3 h4]
  from inst have "mtime ?f = Some (clock host)"
    and "probe_size host (r_probe ?f) = Inr 500000"
    by (simp_all add: resolved_probe)
  with init_notes' h2 h3 h4 show ?thesis
    by simp
qed




text \<open>
  C6, as stated, fails. On the host of the scenario, with \<^verbatim>\<open>dirmtime=True\<close>, the
  first constructor call for \<^verbatim>\<open>sub\<close> requests the page of the parent directory twice
  (once to fill \<^verbatim>\<open>readdir_cache\<close>, once for the time), and a second call, which finds
  the directory in the cache, requests the page a third time.
\<close>

theorem listing_is_requested_again_by_fallback:
  "File_init host Map.empty [] ''http://host'' ''sub'' True =
     (Inr (resolved ''sub'' True True ''http://host/sub/'' (Some (FromListing ''2023-06-01 10:00''))),
      [[] \<mapsto> root_listing],
      [listing_request ''http://host'' [], probe_request ''http://host/sub/'',
       listing_request ''http://host'' []]) \<and>
   File_init host [[] \<mapsto> root_listing]
      [listing_request ''http://host'' [], probe_request ''http://host/sub/'',
       listing_request ''http://host'' []] ''http://host'' ''sub'' True =
     (Inr (resolved ''sub'' True True ''http://host/sub/'' (Some (FromListing ''2023-06-01 10:00''))),
      [[] \<mapsto> root_listing],
      [listing_request ''http://host'' [], probe_request ''http://host/sub/'',
       listing_request ''http://host'' [], probe_request ''http://host/sub/'',
       listing_request ''http://host'' []]) \<and>
   parent_dir_of ''sub'' = []"
  by (simp add: init_sub' init_sub_again') (simp add: parent_dir_of_def)

text \<open>
  C6, amended. A constructor call leaves every listing that is in \<^verbatim>\<open>readdir_cache\<close>
  as it is. When the parent directory is in the cache, the call does not touch the
  cache and sends the probe only, or, with \<^verbatim>\<open>dirmtime=True\<close>, the probe and then one
  request for the parent's page (the scan for the time, which stores nothing). When the
  parent directory is not in the cache, the call first requests its page, and stores
  the listing if \<^verbatim>\<open>contents\<close> returns one; if \<^verbatim>\<open>contents\<close> raises, the exception
  leaves the constructor and nothing is stored.
\<close>

theorem listing_cache_is_filled_once:
  assumes "File_init E cache sent rt pth dmt = (res, cache', sent')"
  shows "(cache p = Some l \<longrightarrow> cache' p = Some l) \<and>
         (cache (parent_dir_of pth) = Some l' \<longrightarrow>
            cache' = cache \<and>
            (\<exists>u. sent' = sent @ [probe_request u] \<or>
               (dmt \<and> sent' = sent @ [probe_request u, listing_request rt (parent_dir_of pth)]))) \<and>
         (cache (parent_dir_of pth) = None \<longrightarrow>
            (\<exists>rest. sent' = sent @ listing_request rt (parent_dir_of pth) # rest) \<and>
            (case fst (contents E sent rt (parent_dir_of pth)) of
               Inl e \<Rightarrow> cache' = cache \<and> res = Inl e
             | Inr listing \<Rightarrow> cache' = cache(parent_dir_of pth \<mapsto> listing)))"
proof (intro conjI impI)
  obtain pr c1 s1 where lp: "load_parent E cache sent rt (parent_dir_of pth) = (pr, c1, s1)"
    by (cases "load_parent E cache sent rt (parent_dir_of pth)") blast
  note after = File_init_after_load [OF assms lp]
  {
    assume "cache p = Some l"
    with load_parent_keeps [OF lp] after show "cache' p = Some l"
      by blast
  }
  {
    assume "cache (parent_dir_of pth) = Some l'"
    with lp have "pr = Inr l'" "c1 = cache" "s1 = sent"
      by (simp_all add: load_parent_cached)
    with after show "cache' = cache"
      and "\<exists>u. sent' = sent @ [probe_request u] \<or>
        (dmt \<and> sent' = sent @ [probe_request u, listing_request rt (parent_dir_of pth)])"
      by auto
  }
  {
    assume "cache (parent_dir_of pth) = None"
    with lp have pr: "pr = fst (contents E sent rt (parent_dir_of pth))"
      and c1: "c1 = (case fst (contents E sent rt (parent_dir_of pth)) of
          Inl e \<Rightarrow> cache | Inr l \<Rightarrow> cache(parent_dir_of pth \<mapsto> l))"
      and s1: "s1 = sent @ [listing_request rt (parent_dir_of pth)]"
      by (auto simp: load_parent_missing)
    from after s1 show "\<exists>rest. sent' = sent @ listing_request rt (parent_dir_of pth) # rest"
      by auto
    from after pr c1 show "case fst (contents E sent rt (parent_dir_of pth)) of
        Inl e \<Rightarrow> cache' = cache \<and> res = Inl e
      | Inr listing \<Rightarrow> cache' = cache(parent_dir_of pth \<mapsto> listing)"
      by (auto split: sum.splits)
  }
qed

theorem listing_cache_is_filled_once_witness:
  "([[] \<mapsto> root_listing] :: string \<rightharpoonup> entry list) (parent_dir_of ''sub'') = Some root_listing \<and>
   File_init host [[] \<mapsto> root_listing]
      [listing_request ''http://host'' [], probe_request ''http://host/sub/'',
       listing_request ''http://host'' []] ''http://host'' ''sub'' True =
     (Inr (resolved ''sub'' True True ''http://host/sub/'' (Some (FromListing ''2023-06-01 10:00''))),
      [[] \<mapsto> root_listing],
      [listing_request ''http://host'' [], probe_request ''http://host/sub/'',
       listing_request ''http://host'' [], probe_request ''http://host/sub/'',
       listing_request ''http://host'' []]) \<and>
   (Map.empty :: string \<rightharpoonup> entry list) (parent_dir_of ''notes.txt'') = None \<and>
   fst (contents host [] ''http://host'' (parent_dir_of ''notes.txt'')) = Inr root_listing \<and>
   fst (snd (File_init host Map.empty [] ''http://host'' ''notes.txt'' False)) =
     [parent_dir_of ''notes.txt'' \<mapsto> root_listing]"
proof -
  have p: "parent_dir_of ''sub'' = []" "parent_dir_of ''notes.txt'' = []"
    by (simp_all add: parent_dir_of_def)
  have c: "fst (contents host [] ''http://host'' []) = Inr root_listing"
    by (simp add: host_def site_def root_listing_def page_eval)
  note again = listing_cache_is_filled_once
    [OF init_sub_again', where p = "[]" and l = root_listing and l' = root_listing]
  note first = listing_cache_is_filled_once
    [OF init_notes' [of False], where p = "[]" and l = root_listing and l' = root_listing]
  from first p c have "[[] \<mapsto> root_listing] = (Map.empty :: string \<rightharpoonup> entry list)([] \<mapsto> root_listing)"
    by simp
  with again init_sub_again' init_notes' [of False] p c show ?thesis
    by simp
qed

end
